theory Spec2Isabelle
  imports Main "HOL-Library.Sublist"
begin

section \<open>Strings and JavaScript values\<close>

text \<open>
  Identifiers (chat ids, user ids, role names, model names, error codes) are ASCII and are
  kept as \<^typ>\<open>string\<close>. Free text (prompts, titles, error messages) is a JavaScript
  string: a sequence of UTF-16 code units, here a list of naturals, since the sources hold
  Persian text. \<open>ascii\<close> reads an ASCII literal as such a sequence.
\<close>

type_synonym jsstring = "nat list"

definition ascii :: "string \<Rightarrow> jsstring" where
  "ascii s = map of_char s"

text \<open>
  The values a dynamically typed JavaScript expression can take, as far as the handlers
  tell them apart: \<open>!v\<close>, \<open>typeof v\<close> and \<open>Array.isArray\<close>.
\<close>

datatype jsval =
    Undefined
  | Null
  | Bool bool
  | Num int
  | Str jsstring
  | Obj

fun truthy :: "jsval \<Rightarrow> bool" where
  "truthy Undefined = False"
| "truthy Null = False"
| "truthy (Bool b) = b"
| "truthy (Num n) = (n \<noteq> 0)"
| "truthy (Str s) = (s \<noteq> [])"
| "truthy Obj = True"

fun typeof :: "jsval \<Rightarrow> string" where
  "typeof Undefined = ''undefined''"
| "typeof Null = ''object''"
| "typeof (Bool b) = ''boolean''"
| "typeof (Num n) = ''number''"
| "typeof (Str s) = ''string''"
| "typeof Obj = ''object''"

text \<open>
  \<open>String.prototype.trim\<close> removes the WhiteSpace and LineTerminator code points of
  ECMAScript from both ends of a string.
\<close>

definition isWhiteSpace :: "nat \<Rightarrow> bool" where
  "isWhiteSpace c \<longleftrightarrow>
     c \<in> {9, 10, 11, 12, 13, 32, 160, 5760, 8232, 8233, 8239, 8287, 12288, 65279}
     \<or> (8192 \<le> c \<and> c \<le> 8202)"

definition trim :: "jsstring \<Rightarrow> jsstring" where
  "trim s = rev (dropWhile isWhiteSpace (rev (dropWhile isWhiteSpace s)))"

section \<open>Prompts (\<open>lib/ai/prompts.ts\<close>)\<close>

text \<open>
  The prompt constants, code unit by code unit. The Persian sentence that \<open>regularPrompt\<close>
  and \<open>healthPrompt\<close> both quote is written once, as \<open>disclaimerFa\<close>; a line feed is
  the code unit 10.
\<close>

definition disclaimerFa :: jsstring where
  \<open>disclaimerFa =
     [1604, 1591, 1601, 1575, 1611, 32, 1602, 1576, 1604, 32, 1575, 1586, 32, 1588,
      1585, 1608, 1593, 32, 1607, 1585, 32, 1585, 1688, 1740, 1605, 32, 1594, 1584,
      1575, 1740, 1740, 32, 1580, 1583, 1740, 1583, 1548, 32, 1576, 1575, 32, 1662,
      1586, 1588, 1705, 32, 1740, 1575, 32, 1605, 1578, 1582, 1589, 1589, 32, 1578,
      1594, 1584, 1740, 1607, 32, 1605, 1588, 1608, 1585, 1578, 32, 1705, 1606, 1740,
      1583]\<close>

definition artifactsPrompt :: jsstring where
  \<open>artifactsPrompt =
     [10] @
     ascii ''Artifacts is a special user interface mode that helps users with writing'' @
     ascii '', editing, and other content creation tasks. When artifact is open, it i'' @
     ascii ''s on the right side of the screen, while the conversation is on the left'' @
     ascii '' side. When creating or updating documents, changes are reflected in rea'' @
     ascii ''l-time on the artifacts and visible to the user.'' @
     [10, 10] @
     ascii ''When asked to write code, always use artifacts. When writing code, speci'' @
     ascii ''fy the language in the backticks, e.g. ```python`code here```. The defau'' @
     ascii ''lt language is Python. Other languages are not yet supported, so let the'' @
     ascii '' user know if they request a different language.'' @
     [10, 10] @
     ascii ''DO NOT UPDATE DOCUMENTS IMMEDIATELY AFTER CREATING THEM. WAIT FOR USER F'' @
     ascii ''EEDBACK OR REQUEST TO UPDATE IT.'' @
     [10, 10] @
     ascii ''This is a guide for using artifacts tools: `createDocument` and `updateD'' @
     ascii ''ocument`, which render content on a artifacts beside the conversation.'' @
     [10, 10] @
     ascii ''**When to use `createDocument`:**'' @
     [10] @
     ascii ''- For substantial content (>10 lines) or code'' @
     [10] @
     ascii ''- For content users will likely save/reuse (emails, code, essays, etc.)'' @
     [10] @
     ascii ''- When explicitly requested to create a document'' @
     [10] @
     ascii ''- For when content contains a single code snippet'' @
     [10, 10] @
     ascii ''**When NOT to use `createDocument`:**'' @
     [10] @
     ascii ''- For informational/explanatory content'' @
     [10] @
     ascii ''- For conversational responses'' @
     [10] @
     ascii ''- When asked to keep it in chat'' @
     [10, 10] @
     ascii ''**Using `updateDocument`:**'' @
     [10] @
     ascii ''- Default to full document rewrites for major changes'' @
     [10] @
     ascii ''- Use targeted updates only for specific, isolated changes'' @
     [10] @
     ascii ''- Follow user instructions for which parts to modify'' @
     [10, 10] @
     ascii ''**When NOT to use `updateDocument`:**'' @
     [10] @
     ascii ''- Immediately after creating a document'' @
     [10, 10] @
     ascii ''Do not update document right after creating it. Wait for user feedback o'' @
     ascii ''r request to update it.'' @
     [10]\<close>

definition regularPrompt :: jsstring where
  \<open>regularPrompt =
     ascii ''You are a friendly assistant! Keep your responses concise and helpful. I'' @
     ascii ''mportant: When discussing health, diet, or medical topics, DO NOT includ'' @
     ascii ''e any disclaimers about consulting doctors or nutritionists. Specificall'' @
     ascii ''y, never say "'' @
     disclaimerFa @
     ascii ''" or any similar disclaimer in any language.''\<close>

definition healthPrompt :: jsstring where
  \<open>healthPrompt =
     ascii ''You are a nutrition and health assistant. Provide helpful dietary inform'' @
     ascii ''ation without any disclaimers or warnings about consulting healthcare pr'' @
     ascii ''ofessionals. Never include statements like "'' @
     disclaimerFa @
     ascii ''" or any similar disclaimer in any language. When asked about diet or nu'' @
     ascii ''trition plans, follow this multi-step process:'' @
     [10, 10] @
     ascii ''1. Ask the user questions one by one in separate messages, waiting for t'' @
     ascii ''heir response to each question before asking the next one. Essential que'' @
     ascii ''stions include:'' @
     [10] @
     ascii ''   - What are your health or weight goals?'' @
     [10] @
     ascii ''   - Do you have any dietary restrictions or allergies?'' @
     [10] @
     ascii ''   - How many meals per day do you prefer?'' @
     [10] @
     ascii ''   - Do you have specific calorie targets?'' @
     [10] @
     ascii ''   - Any foods you particularly enjoy or dislike?'' @
     [10, 10] @
     ascii ''2. Only after receiving answers to all questions, generate the complete '' @
     ascii ''diet plan.'' @
     [10, 10] @
     ascii ''3. Present the final plan using a borderless table format with clean col'' @
     ascii ''umnar layout, organizing content with clear columns for day number, brea'' @
     ascii ''kfast, lunch, dinner, and snacks. Include specific meals for each day wi'' @
     ascii ''thout overwhelming detail. Label each day numerically from Day 1 to Day '' @
     ascii ''30.''\<close>

text \<open>
  \<open>RequestHints\<close>: the four fields of Vercel's \<open>Geo\<close>, each a string or
  \<open>undefined\<close>. A template literal prints \<open>undefined\<close> as the word itself.
\<close>

record RequestHints =
  latitude :: "jsstring option"
  longitude :: "jsstring option"
  city :: "jsstring option"
  country :: "jsstring option"

definition interpolate :: "jsstring option \<Rightarrow> jsstring" where
  "interpolate v = (case v of None \<Rightarrow> ascii ''undefined'' | Some s \<Rightarrow> s)"

definition getRequestPromptFromHints :: "RequestHints \<Rightarrow> jsstring" where
  \<open>getRequestPromptFromHints requestHints =
     ascii ''About the origin of user's request:'' @ [10] @
     ascii ''- lat: '' @ interpolate (latitude requestHints) @ [10] @
     ascii ''- lon: '' @ interpolate (longitude requestHints) @ [10] @
     ascii ''- city: '' @ interpolate (city requestHints) @ [10] @
     ascii ''- country: '' @ interpolate (country requestHints) @ [10]\<close>

definition systemPrompt :: "string \<Rightarrow> RequestHints \<Rightarrow> jsstring" where
  "systemPrompt selectedChatModel requestHints =
     (let requestPrompt = getRequestPromptFromHints requestHints;
          basePrompt = regularPrompt @ [10, 10] @ healthPrompt
      in if selectedChatModel = ''chat-model-reasoning''
         then basePrompt @ [10, 10] @ requestPrompt
         else basePrompt @ [10, 10] @ requestPrompt @ [10, 10] @ artifactsPrompt)"

section \<open>Data model (\<open>lib/db/schema\<close>, session, request body)\<close>

datatype part = TextPart jsstring | OtherPart

type_synonym attachment = jsstring

text \<open>A chat row. \<open>visibility\<close> is \<open>'private'\<close> or \<open>'public'\<close>.\<close>

record Chat =
  c_id :: string
  c_userId :: string
  c_title :: jsstring
  c_visibility :: string
  c_createdAt :: int

text \<open>A message row; \<open>createdAt\<close> is a JavaScript date, in milliseconds since the epoch.\<close>

record DBMessage =
  m_id :: string
  m_chatId :: string
  m_role :: string
  m_parts :: "part list"
  m_attachments :: "attachment list"
  m_createdAt :: int

text \<open>
  The message of the request body (\<open>UIMessage\<close>); \<open>experimental_attachments\<close> may be
  absent.
\<close>

record UIMessage =
  u_id :: string
  u_content :: jsstring
  u_parts :: "part list"
  u_experimental_attachments :: "attachment list option"

record PostRequestBody =
  b_id :: string
  b_message :: UIMessage
  b_selectedChatModel :: string
  b_selectedVisibilityType :: string

text \<open>\<open>session.user\<close>; the account tier \<open>UserType\<close> is a string union.\<close>

type_synonym UserType = string

record User =
  uid :: string
  email :: "jsstring option"
  utype :: UserType

section \<open>Exceptions, responses and the trace of external calls\<close>

text \<open>
  What a \<open>throw\<close> can carry: a \<open>ChatSDKError\<close> with its code \<open>type:surface\<close>, the
  \<open>TypeError\<close> of a property read on \<open>undefined\<close>, or any other \<open>Error\<close> with its
  message.
\<close>

datatype exn = ChatSDKError string | TypeError | Error jsstring

text \<open>
  The arguments of the \<open>streamText\<close> call that a data stream of \<open>POST\<close> runs when it
  is read: the model is invoked by the stream, not by the handler.
\<close>

record StreamTextCall =
  st_model :: string
  st_system :: jsstring
  st_previousMessages :: "DBMessage list"
  st_message :: UIMessage
  st_maxSteps :: nat
  st_experimental_activeTools :: "string list"
  st_tools :: "string list"

text \<open>
  A stream handed to \<open>new Response\<close>: a data stream whose \<open>execute\<close> writes the given
  data parts (none for \<open>emptyDataStream\<close>), a data stream that runs a \<open>streamText\<close>
  call, or what \<open>streamContext.resumableStream(streamId, () => stream)\<close> resolved to when
  it is not \<open>null\<close>.
\<close>

datatype dataPart = AppendMessage DBMessage

datatype stream =
    Written "dataPart list"
  | ModelStream StreamTextCall
  | Resumable string stream

datatype body =
    NoBody
  | StreamBody stream
  | DeletedChatJson Chat
  | UnexpectedErrorJson

text \<open>
  \<open>ChatSDKErrorResponse code\<close> is \<open>new ChatSDKError(code).toResponse()\<close>; every other
  response is built in the handlers with a status and a body.
\<close>

datatype response =
    ChatSDKErrorResponse string
  | Response nat body

text \<open>
  Every call that leaves the handler is recorded, in order, when it is made: the trace
  tells what a request did before it was answered.
\<close>

datatype effect =
    ConsoleLog string
  | ConsoleError string
  | Auth
  | SelectUser string
  | InsertUser string
  | GetMessageCountByUserId string nat
  | GetChatById string
  | GenerateText string
  | SaveChat string string jsstring string
  | GetMessagesByChatId string
  | SaveMessages "DBMessage list"
  | CreateStreamId string string
  | CreateResumableStreamContext
  | ResumableStream string
  | GetStreamIdsByChatId string
  | DeleteChatById string

datatype StreamContext = StreamContext

text \<open>
  The state a handler runs in: the trace so far and the module variable
  \<open>globalStreamContext\<close>.
\<close>

record world =
  trace :: "effect list"
  globalStreamContext :: "StreamContext option"

text \<open>
  An asynchronous computation either returns a value or throws, and leaves a new state.
  The outcome of each external call is an input of the model (\<open>Inl\<close> when it throws).
\<close>

type_synonym 'a io = "world \<Rightarrow> (exn + 'a) \<times> world"

definition ret :: "'a \<Rightarrow> 'a io" where
  "ret x = (\<lambda>w. (Inr x, w))"

definition throw :: "exn \<Rightarrow> 'a io" where
  "throw e = (\<lambda>w. (Inl e, w))"

definition seq :: "'a io \<Rightarrow> ('a \<Rightarrow> 'b io) \<Rightarrow> 'b io" where
  "seq m f = (\<lambda>w. case m w of (Inl e, w') \<Rightarrow> (Inl e, w') | (Inr x, w') \<Rightarrow> f x w')"

definition try_catch :: "'a io \<Rightarrow> (exn \<Rightarrow> 'a io) \<Rightarrow> 'a io" where
  "try_catch m h = (\<lambda>w. case m w of (Inl e, w') \<Rightarrow> h e w' | (Inr x, w') \<Rightarrow> (Inr x, w'))"

definition emit :: "effect \<Rightarrow> unit io" where
  "emit ef = (\<lambda>w. (Inr (), w\<lparr>trace := trace w @ [ef]\<rparr>))"

definition await :: "effect \<Rightarrow> exn + 'a \<Rightarrow> 'a io" where
  "await ef outcome = seq (emit ef) (\<lambda>_. case outcome of Inl e \<Rightarrow> throw e | Inr v \<Rightarrow> ret v)"

section \<open>Title generation (\<open>actions.ts\<close>)\<close>

definition fallbackTitle :: jsstring where
  \<open>fallbackTitle =
     [1711, 1601, 1578, 1711, 1608, 1740, 32, 1580, 1583, 1740, 1583]\<close>

fun stringValue :: "jsval \<Rightarrow> jsstring" where
  "stringValue (Str s) = s"
| "stringValue _ = []"

text \<open>
  \<open>generateText\<close> is the outcome of the call to the title model: it throws, or \<open>title\<close>
  is bound to the \<open>text\<close> field of what it returned. \<open>title.trim()\<close> is reached for
  strings only.
\<close>

definition generateTitleFromUserMessage :: "exn + jsval \<Rightarrow> jsstring io" where
  "generateTitleFromUserMessage generateText =
     try_catch
       (seq (emit (ConsoleLog ''Generating title for message:'')) (\<lambda>_.
        seq (await (GenerateText ''title-model'') generateText) (\<lambda>title.
        seq (emit (ConsoleLog ''Generated title:'')) (\<lambda>_.
        if \<not> truthy title \<or> typeof title \<noteq> ''string'' \<or> trim (stringValue title) = []
        then seq (emit (ConsoleLog ''Title was empty or invalid, using fallback'')) (\<lambda>_.
             ret fallbackTitle)
        else ret (stringValue title)))))
       (\<lambda>error.
        seq (emit (ConsoleError ''Error generating title:'')) (\<lambda>_.
        ret fallbackTitle))"

section \<open>The chat route handlers (\<open>app/(chat)/actions.ts\<close>)\<close>

text \<open>
  \<open>try { x = await m } catch (e) { return h(e) }\<close> followed by the rest of the function:
  only \<open>m\<close> is protected, the rest \<open>k\<close> is not.
\<close>

definition try_or_return :: "'a io \<Rightarrow> (exn \<Rightarrow> 'b io) \<Rightarrow> ('a \<Rightarrow> 'b io) \<Rightarrow> 'b io" where
  "try_or_return m h k = (\<lambda>w. case m w of (Inl e, w') \<Rightarrow> h e w' | (Inr x, w') \<Rightarrow> k x w')"

text \<open>A library function that is pure but may throw: no entry in the trace.\<close>

definition attempt :: "exn + 'a \<Rightarrow> 'a io" where
  "attempt outcome = (case outcome of Inl e \<Rightarrow> throw e | Inr v \<Rightarrow> ret v)"

subsection \<open>\<open>getStreamContext\<close>\<close>

text \<open>
  \<open>createResumableStreamContext\<close> returns a context or throws an \<open>Error\<close>, given here by
  its message. The context is cached in \<open>globalStreamContext\<close>; a failure leaves the
  variable \<open>null\<close> and is only logged.
\<close>

definition getStreamContext :: "jsstring + StreamContext \<Rightarrow> StreamContext option io" where
  "getStreamContext createResumableStreamContext =
     (\<lambda>w. case globalStreamContext w of
        Some c \<Rightarrow> ret (Some c) w
      | None \<Rightarrow>
          (case createResumableStreamContext of
             Inr c \<Rightarrow>
               ret (Some c)
                 (w\<lparr>trace := trace w @ [CreateResumableStreamContext],
                    globalStreamContext := Some c\<rparr>)
           | Inl message \<Rightarrow>
               seq (emit CreateResumableStreamContext) (\<lambda>_.
               seq (emit (if sublist (ascii ''REDIS_URL'') message
                          then ConsoleLog '' > Resumable streams are disabled due to missing REDIS_URL''
                          else ConsoleError ''error'')) (\<lambda>_.
               ret None)) w))"

subsection \<open>\<open>POST\<close>\<close>

text \<open>
  The outcomes of the calls \<open>POST\<close> makes, in the order of the source. Each is made at
  most once in a request. \<open>p_maxMessagesPerDay\<close> is
  \<open>entitlementsByUserType[userType].maxMessagesPerDay\<close>, a table of another module.
  \<open>p_resumableStream\<close> is \<open>True\<close> when \<open>resumableStream\<close> resolves to a stream and
  \<open>False\<close> when it resolves to \<open>null\<close>.
\<close>

record PostEnv =
  p_body :: "exn + PostRequestBody"
  p_auth :: "exn + User option"
  p_selectUser :: "exn + nat"
  p_insertUser :: "exn + unit"
  p_messageCount :: "exn + nat"
  p_maxMessagesPerDay :: "UserType \<Rightarrow> nat"
  p_chat :: "exn + Chat option"
  p_generateText :: "exn + jsval"
  p_saveChat :: "exn + unit"
  p_previousMessages :: "exn + DBMessage list"
  p_requestHints :: RequestHints
  p_now :: int
  p_saveMessages :: "exn + unit"
  p_uuid :: string
  p_createStreamId :: "exn + unit"
  p_createContext :: "jsstring + StreamContext"
  p_resumableStream :: "exn + bool"

text \<open>Lines 161 to 186: the user row is created when absent; every failure is swallowed.\<close>

definition ensureUser :: "PostEnv \<Rightarrow> User \<Rightarrow> unit io" where
  "ensureUser env user =
     try_catch
       (seq (await (SelectUser (uid user)) (p_selectUser env)) (\<lambda>existingUser.
        seq (emit (ConsoleLog ''User check result:'')) (\<lambda>_.
        if existingUser = 0
        then seq (emit (ConsoleLog ''User not found in database, creating user:'')) (\<lambda>_.
             seq (await (InsertUser (uid user)) (p_insertUser env)) (\<lambda>_.
             emit (ConsoleLog ''User created successfully'')))
        else ret ())))
       (\<lambda>userError. emit (ConsoleError ''Error checking or creating user:''))"

text \<open>Lines 200 to 216: a new chat gets a generated title; a failure is logged and rethrown.\<close>

definition createChat :: "PostEnv \<Rightarrow> PostRequestBody \<Rightarrow> User \<Rightarrow> unit io" where
  "createChat env requestBody user =
     seq (emit (ConsoleLog ''Creating new chat with ID:'')) (\<lambda>_.
     try_catch
       (seq (generateTitleFromUserMessage (p_generateText env)) (\<lambda>title.
        seq (await (SaveChat (b_id requestBody) (uid user) title
                      (b_selectedVisibilityType requestBody)) (p_saveChat env)) (\<lambda>_.
        emit (ConsoleLog ''Chat created successfully''))))
       (\<lambda>error.
        seq (emit (ConsoleError ''Error creating chat:'')) (\<lambda>_.
        throw error)))"

text \<open>Lines 265 to 289: the arguments \<open>streamText\<close> is called with.\<close>

definition streamTextCall ::
  "PostRequestBody \<Rightarrow> RequestHints \<Rightarrow> DBMessage list \<Rightarrow> StreamTextCall" where
  "streamTextCall requestBody requestHints previousMessages =
     \<lparr>st_model = b_selectedChatModel requestBody,
      st_system = systemPrompt (b_selectedChatModel requestBody) requestHints,
      st_previousMessages = previousMessages,
      st_message = b_message requestBody,
      st_maxSteps = 5,
      st_experimental_activeTools =
        (if b_selectedChatModel requestBody = ''chat-model-reasoning''
         then []
         else [''getWeather'', ''createDocument'', ''updateDocument'', ''requestSuggestions'']),
      st_tools = [''getWeather'', ''createDocument'', ''updateDocument'', ''requestSuggestions'']\<rparr>"

text \<open>Lines 223 to 393: the user message is saved and the stream is built and returned.\<close>

definition startStream :: "PostEnv \<Rightarrow> PostRequestBody \<Rightarrow> response io" where
  "startStream env requestBody =
     seq (await (GetMessagesByChatId (b_id requestBody)) (p_previousMessages env))
       (\<lambda>previousMessages.
     let message = b_message requestBody;
         requestHints = p_requestHints env
     in
     seq (emit (ConsoleLog ''Saving user message with ID:'')) (\<lambda>_.
     seq (try_catch
            (seq (await (SaveMessages
                    [\<lparr>m_id = u_id message,
                      m_chatId = b_id requestBody,
                      m_role = ''user'',
                      m_parts = u_parts message,
                      m_attachments =
                        (case u_experimental_attachments message of
                           Some attachments \<Rightarrow> attachments | None \<Rightarrow> []),
                      m_createdAt = p_now env\<rparr>])
                    (p_saveMessages env)) (\<lambda>_.
             emit (ConsoleLog ''User message saved successfully'')))
            (\<lambda>error.
             seq (emit (ConsoleError ''Error saving user message:'')) (\<lambda>_.
             throw error))) (\<lambda>_.
     let streamId = p_uuid env in
     seq (await (CreateStreamId streamId (b_id requestBody)) (p_createStreamId env)) (\<lambda>_.
     let stream = ModelStream (streamTextCall requestBody requestHints previousMessages) in
     seq (getStreamContext (p_createContext env)) (\<lambda>streamContext.
     case streamContext of
       Some context \<Rightarrow>
         seq (await (ResumableStream streamId) (p_resumableStream env)) (\<lambda>resumed.
         ret (Response 200
                (if resumed then StreamBody (Resumable streamId stream) else NoBody)))
     | None \<Rightarrow> ret (Response 200 (StreamBody stream)))))))"

text \<open>Lines 149 to 221, then \<open>startStream\<close>: the body of the second \<open>try\<close>.\<close>

definition handlePost :: "PostEnv \<Rightarrow> PostRequestBody \<Rightarrow> response io" where
  "handlePost env requestBody =
     seq (await Auth (p_auth env)) (\<lambda>session.
     case session of
       None \<Rightarrow> ret (ChatSDKErrorResponse ''unauthorized:chat'')
     | Some user \<Rightarrow>
         let userType = utype user in
         seq (ensureUser env user) (\<lambda>_.
         seq (await (GetMessageCountByUserId (uid user) 24) (p_messageCount env))
           (\<lambda>messageCount.
         if messageCount > p_maxMessagesPerDay env userType
         then ret (ChatSDKErrorResponse ''rate_limit:chat'')
         else
           seq (await (GetChatById (b_id requestBody)) (p_chat env)) (\<lambda>chat.
           case chat of
             None \<Rightarrow>
               seq (createChat env requestBody user) (\<lambda>_.
               startStream env requestBody)
           | Some chat \<Rightarrow>
               if c_userId chat \<noteq> uid user
               then ret (ChatSDKErrorResponse ''forbidden:chat'')
               else startStream env requestBody))))"

definition POST :: "PostEnv \<Rightarrow> response io" where
  "POST env =
     try_or_return (attempt (p_body env))
       (\<lambda>error.
        seq (emit (ConsoleError ''Error parsing request body:'')) (\<lambda>_.
        ret (ChatSDKErrorResponse ''bad_request:api'')))
       (\<lambda>requestBody.
        try_catch (handlePost env requestBody)
          (\<lambda>error.
           case error of
             ChatSDKError code \<Rightarrow> ret (ChatSDKErrorResponse code)
           | _ \<Rightarrow>
               seq (emit (ConsoleError ''Unhandled error in POST handler:'')) (\<lambda>_.
               ret (Response 500 UnexpectedErrorJson))))"

subsection \<open>\<open>onFinish\<close>\<close>

text \<open>
  \<open>response.messages\<close> as far as \<open>onFinish\<close> reads it, and the message that
  \<open>appendResponseMessages\<close> builds: \<open>parts\<close> is \<open>None\<close> when it is not an array,
  \<open>experimental_attachments\<close> likewise.
\<close>

record ResponseMessage =
  r_id :: string
  r_role :: string

record AssistantMessage =
  a_role :: string
  a_parts :: "part list option"
  a_content :: jsval
  a_experimental_attachments :: "attachment list option"

text \<open>
  \<open>f_getTrailingMessageId\<close> is the helper of \<open>lib/utils\<close> (the id of the last message,
  or \<open>null\<close>); \<open>f_appendResponseMessages\<close> is what the library call returns, the
  assistant message being its second element; \<open>f_saveMessages\<close> is the outcome of the
  write.
\<close>

record FinishEnv =
  f_responseMessages :: "ResponseMessage list"
  f_getTrailingMessageId :: "ResponseMessage list \<Rightarrow> string option"
  f_appendResponseMessages :: "exn + AssistantMessage list"
  f_now :: int
  f_saveMessages :: "exn + unit"

text \<open>Lines 311 to 334: the parts that are saved.\<close>

definition safeParts :: "AssistantMessage \<Rightarrow> part list io" where
  "safeParts assistantMessage =
     (if (case a_parts assistantMessage of Some ps \<Rightarrow> ps \<noteq> [] | None \<Rightarrow> False)
      then seq (emit (ConsoleLog ''Using parts array from message'')) (\<lambda>_.
           ret (case a_parts assistantMessage of Some ps \<Rightarrow> ps | None \<Rightarrow> []))
      else if typeof (a_content assistantMessage) = ''string''
              \<and> trim (stringValue (a_content assistantMessage)) \<noteq> []
      then seq (emit (ConsoleLog ''Created text part from content'')) (\<lambda>_.
           ret [TextPart (stringValue (a_content assistantMessage))])
      else seq (emit (ConsoleLog ''Created empty text part'')) (\<lambda>_.
           ret [TextPart []]))"

text \<open>
  Lines 290 to 367. \<open>user\<close> is \<open>session.user\<close> and \<open>chatId\<close> the \<open>id\<close> of the request
  body, both captured when the stream was built. Reading a field of a missing assistant
  message is a \<open>TypeError\<close>, inside the \<open>try\<close>.
\<close>

definition onFinish :: "User \<Rightarrow> string \<Rightarrow> FinishEnv \<Rightarrow> unit io" where
  "onFinish user chatId env =
     (if uid user = [] then ret ()
      else
        try_catch
          (case f_getTrailingMessageId env
                  (filter (\<lambda>message. r_role message = ''assistant'') (f_responseMessages env)) of
             None \<Rightarrow> throw (Error (ascii ''No assistant message found!''))
           | Some assistantId \<Rightarrow>
               if assistantId = [] then throw (Error (ascii ''No assistant message found!''))
               else
                 seq (attempt (f_appendResponseMessages env)) (\<lambda>appended.
                 seq (emit (ConsoleLog ''Raw assistantMessage:'')) (\<lambda>_.
                 case drop 1 appended of
                   [] \<Rightarrow> throw TypeError
                 | assistantMessage # _ \<Rightarrow>
                     seq (safeParts assistantMessage) (\<lambda>parts.
                     let attachments =
                           (case a_experimental_attachments assistantMessage of
                              Some xs \<Rightarrow> xs | None \<Rightarrow> [])
                     in
                     seq (emit (ConsoleLog ''Formatted message to save:'')) (\<lambda>_.
                     seq (await (SaveMessages
                            [\<lparr>m_id = assistantId,
                              m_chatId = chatId,
                              m_role = a_role assistantMessage,
                              m_parts = parts,
                              m_attachments = attachments,
                              m_createdAt = f_now env\<rparr>])
                            (f_saveMessages env)) (\<lambda>_.
                     emit (ConsoleLog ''Successfully saved assistant message'')))))))
          (\<lambda>error. emit (ConsoleError ''Error in onFinish handler:'')))"

text \<open>
  What the client receives from the data stream of \<open>POST\<close>: the parts merged from the
  model's output, and, when producing the stream throws, one error part with the text of
  \<open>onError\<close> (line 380) in place of a regular end. \<open>finished\<close> is how \<open>onFinish\<close>
  ended.
\<close>

datatype 'c delivered = ModelPart 'c | ErrorPart jsstring

definition onError :: jsstring where
  "onError = ascii ''Oops, an error occurred!''"

definition clientStream :: "'c list \<Rightarrow> exn + unit \<Rightarrow> 'c delivered list" where
  "clientStream chunks finished =
     map ModelPart chunks @ (case finished of Inl e \<Rightarrow> [ErrorPart onError] | Inr _ \<Rightarrow> [])"

subsection \<open>\<open>GET\<close>\<close>

text \<open>
  \<open>differenceInSeconds\<close> of date-fns: the difference of the two dates in milliseconds,
  divided by 1000 and rounded towards zero.
\<close>

definition differenceInSeconds :: "int \<Rightarrow> int \<Rightarrow> int" where
  "differenceInSeconds laterDate earlierDate =
     (let diff = laterDate - earlierDate
      in if 0 \<le> diff then diff div 1000 else - ((- diff) div 1000))"

text \<open>
  \<open>g_chatId\<close> is \<open>searchParams.get('chatId')\<close>, \<open>None\<close> for \<open>null\<close>; \<open>g_now\<close> is
  \<open>resumeRequestedAt\<close>; \<open>g_resumableStream\<close> is \<open>False\<close> when the call resolves to
  \<open>null\<close>, that is when the stream has concluded.
\<close>

record GetEnv =
  g_createContext :: "jsstring + StreamContext"
  g_now :: int
  g_chatId :: "string option"
  g_auth :: "exn + User option"
  g_chat :: "exn + Chat option"
  g_streamIds :: "exn + string list"
  g_resumableStream :: "exn + bool"
  g_messages :: "exn + DBMessage list"

text \<open>Lines 479 to 507: the stream has concluded.\<close>

definition replay :: "GetEnv \<Rightarrow> string \<Rightarrow> int \<Rightarrow> stream \<Rightarrow> response io" where
  "replay env chatId resumeRequestedAt emptyDataStream =
     seq (await (GetMessagesByChatId chatId) (g_messages env)) (\<lambda>messages.
     case messages of
       [] \<Rightarrow> ret (Response 200 (StreamBody emptyDataStream))
     | _ # _ \<Rightarrow>
         let mostRecentMessage = last messages in
         if m_role mostRecentMessage \<noteq> ''assistant''
         then ret (Response 200 (StreamBody emptyDataStream))
         else
           let messageCreatedAt = m_createdAt mostRecentMessage in
           if differenceInSeconds resumeRequestedAt messageCreatedAt > 15
           then ret (Response 200 (StreamBody emptyDataStream))
           else
             let restoredStream = Written [AppendMessage mostRecentMessage] in
             ret (Response 200 (StreamBody restoredStream)))"

definition GET :: "GetEnv \<Rightarrow> response io" where
  "GET env =
     seq (getStreamContext (g_createContext env)) (\<lambda>streamContext.
     let resumeRequestedAt = g_now env in
     case streamContext of
       None \<Rightarrow> ret (Response 204 NoBody)
     | Some context \<Rightarrow>
         (case g_chatId env of
            None \<Rightarrow> ret (ChatSDKErrorResponse ''bad_request:api'')
          | Some chatId \<Rightarrow>
              if chatId = [] then ret (ChatSDKErrorResponse ''bad_request:api'')
              else
                seq (await Auth (g_auth env)) (\<lambda>session.
                case session of
                  None \<Rightarrow> ret (ChatSDKErrorResponse ''unauthorized:chat'')
                | Some user \<Rightarrow>
                    try_or_return (await (GetChatById chatId) (g_chat env))
                      (\<lambda>_. ret (ChatSDKErrorResponse ''not_found:chat''))
                      (\<lambda>chat.
                       case chat of
                         None \<Rightarrow> ret (ChatSDKErrorResponse ''not_found:chat'')
                       | Some chat \<Rightarrow>
                           if c_visibility chat = ''private'' \<and> c_userId chat \<noteq> uid user
                           then ret (ChatSDKErrorResponse ''forbidden:chat'')
                           else
                             seq (await (GetStreamIdsByChatId chatId) (g_streamIds env))
                               (\<lambda>streamIds.
                             if streamIds = []
                             then ret (ChatSDKErrorResponse ''not_found:stream'')
                             else
                               let recentStreamId = last streamIds in
                               if recentStreamId = []
                               then ret (ChatSDKErrorResponse ''not_found:stream'')
                               else
                                 let emptyDataStream = Written [] in
                                 seq (await (ResumableStream recentStreamId)
                                        (g_resumableStream env)) (\<lambda>stream.
                                 if \<not> stream
                                 then replay env chatId resumeRequestedAt emptyDataStream
                                 else ret (Response 200
                                        (StreamBody
                                           (Resumable recentStreamId emptyDataStream)))))))))"

subsection \<open>\<open>DELETE\<close>\<close>

text \<open>
  \<open>d_id\<close> is \<open>searchParams.get('id')\<close>. \<open>getChatById\<close> resolves to \<open>undefined\<close> for an
  id with no row (as \<open>POST\<close> and \<open>GET\<close> test with \<open>!chat\<close>); \<open>chat.userId\<close> is then a
  \<open>TypeError\<close>. \<open>d_deleteChatById\<close> is the row \<open>deleteChatById\<close> resolves to, \<open>None\<close> for
  \<open>undefined\<close>: \<open>Response.json(undefined)\<close> throws a \<open>TypeError\<close>, since \<open>undefined\<close> has
  no JSON text. The handler has no \<open>try\<close>.
\<close>

record DeleteEnv =
  d_id :: "string option"
  d_auth :: "exn + User option"
  d_chat :: "exn + Chat option"
  d_deleteChatById :: "exn + Chat option"

definition DELETE :: "DeleteEnv \<Rightarrow> response io" where
  "DELETE env =
     (case d_id env of
        None \<Rightarrow> ret (ChatSDKErrorResponse ''bad_request:api'')
      | Some id' \<Rightarrow>
          if id' = [] then ret (ChatSDKErrorResponse ''bad_request:api'')
          else
            seq (await Auth (d_auth env)) (\<lambda>session.
            case session of
              None \<Rightarrow> ret (ChatSDKErrorResponse ''unauthorized:chat'')
            | Some user \<Rightarrow>
                seq (await (GetChatById id') (d_chat env)) (\<lambda>chat.
                case chat of
                  None \<Rightarrow> throw TypeError
                | Some chat \<Rightarrow>
                    if c_userId chat \<noteq> uid user
                    then ret (ChatSDKErrorResponse ''forbidden:chat'')
                    else
                      seq (await (DeleteChatById id') (d_deleteChatById env)) (\<lambda>deletedChat.
                      case deletedChat of
                        None \<Rightarrow> throw TypeError
                      | Some deleted \<Rightarrow> ret (Response 200 (DeletedChatJson deleted))))))"

section \<open>Properties of traces and example requests\<close>

text \<open>
  \<open>chatWork\<close> holds of the calls that create a chat, save a message, register a stream
  or invoke a model. The remaining definitions are concrete requests, used to instantiate
  the theorems below.
\<close>

fun chatWork :: "effect \<Rightarrow> bool" where
  "chatWork (SaveChat i u t v) = True"
| "chatWork (SaveMessages ms) = True"
| "chatWork (GenerateText m) = True"
| "chatWork (CreateStreamId s c) = True"
| "chatWork (ResumableStream s) = True"
| "chatWork _ = False"

definition w0 :: world where
  "w0 = \<lparr>trace = [], globalStreamContext = None\<rparr>"

definition noHints :: RequestHints where
  "noHints = \<lparr>latitude = None, longitude = None, city = None, country = None\<rparr>"

definition exampleMessage :: UIMessage where
  "exampleMessage = \<lparr>u_id = ''m1'', u_content = ascii ''hello'', u_parts = [TextPart (ascii ''hello'')],
     u_experimental_attachments = None\<rparr>"

definition exampleBody :: "string \<Rightarrow> PostRequestBody" where
  "exampleBody selectedChatModel = \<lparr>b_id = ''c1'', b_message = exampleMessage,
     b_selectedChatModel = selectedChatModel, b_selectedVisibilityType = ''private''\<rparr>"

definition alice :: User where
  "alice = \<lparr>uid = ''alice'', email = None, utype = ''regular''\<rparr>"

definition chatOfBob :: "string \<Rightarrow> Chat" where
  "chatOfBob visibility = \<lparr>c_id = ''c1'', c_userId = ''bob'', c_title = ascii ''Diet'',
     c_visibility = visibility, c_createdAt = 0\<rparr>"

definition assistantMessageAt :: "int \<Rightarrow> DBMessage" where
  "assistantMessageAt createdAt = \<lparr>m_id = ''m2'', m_chatId = ''c1'', m_role = ''assistant'',
     m_parts = [TextPart (ascii ''hi'')], m_attachments = [], m_createdAt = createdAt\<rparr>"

definition exampleGet :: "Chat \<Rightarrow> bool \<Rightarrow> int \<Rightarrow> DBMessage list \<Rightarrow> GetEnv" where
  "exampleGet chat resumed now messages =
     \<lparr>g_createContext = Inr StreamContext, g_now = now, g_chatId = Some ''c1'',
      g_auth = Inr (Some alice), g_chat = Inr (Some chat), g_streamIds = Inr [''s1''],
      g_resumableStream = Inr resumed, g_messages = Inr messages\<rparr>"

definition examplePost ::
  "exn + PostRequestBody \<Rightarrow> User option \<Rightarrow> nat \<Rightarrow> Chat option \<Rightarrow> jsstring + StreamContext \<Rightarrow> PostEnv" where
  "examplePost body session messageCount chat context =
     \<lparr>p_body = body, p_auth = Inr session, p_selectUser = Inr 1, p_insertUser = Inr (),
      p_messageCount = Inr messageCount, p_maxMessagesPerDay = (\<lambda>userType. 100),
      p_chat = Inr chat, p_generateText = Inr (Str (ascii ''Diet plan'')), p_saveChat = Inr (),
      p_previousMessages = Inr [], p_requestHints = noHints, p_now = 0,
      p_saveMessages = Inr (), p_uuid = ''s1'', p_createStreamId = Inr (),
      p_createContext = context, p_resumableStream = Inr True\<rparr>"

definition exampleDelete :: "Chat option \<Rightarrow> DeleteEnv" where
  "exampleDelete chat =
     \<lparr>d_id = Some ''c1'', d_auth = Inr (Some alice), d_chat = Inr chat,
      d_deleteChatById = Inr chat\<rparr>"

definition exampleFinish :: "exn + unit \<Rightarrow> FinishEnv" where
  "exampleFinish saved =
     \<lparr>f_responseMessages = [\<lparr>r_id = ''m2'', r_role = ''assistant''\<rparr>],
      f_getTrailingMessageId = (\<lambda>messages. case messages of [] \<Rightarrow> None | _ \<Rightarrow> Some (r_id (last messages))),
      f_appendResponseMessages =
        Inr [\<lparr>a_role = ''user'', a_parts = Some [TextPart (ascii ''hello'')],
               a_content = Str (ascii ''hello''), a_experimental_attachments = None\<rparr>,
             \<lparr>a_role = ''assistant'', a_parts = Some [TextPart (ascii ''hi'')],
               a_content = Str (ascii ''hi''), a_experimental_attachments = None\<rparr>],
      f_now = 0,
      f_saveMessages = saved\<rparr>"

section \<open>Verification\<close>

subsection \<open>The computations\<close>

lemmas io_defs = ret_def throw_def seq_def try_catch_def emit_def await_def try_or_return_def attempt_def

lemma ex_trace_extension:
  "(\<exists>added. w\<lparr>trace := trace w @ L\<rparr> = w\<lparr>trace := trace w @ added\<rparr> \<and> P added) \<longleftrightarrow> P L"
proof
  assume "\<exists>added. w\<lparr>trace := trace w @ L\<rparr> = w\<lparr>trace := trace w @ added\<rparr> \<and> P added"
  then obtain added where eq: "w\<lparr>trace := trace w @ L\<rparr> = w\<lparr>trace := trace w @ added\<rparr>" and p: "P added"
    by blast
  from eq have "trace (w\<lparr>trace := trace w @ L\<rparr>) = trace (w\<lparr>trace := trace w @ added\<rparr>)"
    by (rule arg_cong)
  then have "L = added" by simp
  with p show "P L" by simp
next
  assume "P L"
  then show "\<exists>added. w\<lparr>trace := trace w @ L\<rparr> = w\<lparr>trace := trace w @ added\<rparr> \<and> P added"
    by blast
qed

lemma ex_trace_extension_plain:
  "\<exists>added. w\<lparr>trace := trace w @ L\<rparr> = w\<lparr>trace := trace w @ added\<rparr>"
  by blast

lemma try_catch_emit: "fst (try_catch m (\<lambda>error. emit ef) w) = Inr ()"
proof (cases "m w")
  case (Pair outcome w')
  then show ?thesis
    by (cases outcome) (simp_all add: try_catch_def emit_def)
qed

subsection \<open>Title generation\<close>

lemma trim_nonempty: "trim s \<noteq> [] \<Longrightarrow> s \<noteq> []"
  by (auto simp: trim_def)

lemma fallbackTitle_nonempty: "fallbackTitle \<noteq> []"
  by (simp add: fallbackTitle_def)

lemma generateTitle_returns:
  "\<exists>title added. generateTitleFromUserMessage generateText w =
     (Inr title, w\<lparr>trace := trace w @ added\<rparr>)"
proof (cases generateText)
  case (Inl e)
  then show ?thesis
    by (simp add: generateTitleFromUserMessage_def io_defs ex_trace_extension_plain)
next
  case (Inr title)
  then show ?thesis
    by (simp add: generateTitleFromUserMessage_def io_defs ex_trace_extension_plain)
qed

text \<open>
  Claim C9. \<open>generateTitleFromUserMessage\<close> never throws and always returns a non-empty
  title. When the call to the title model throws, or its text is missing (\<open>undefined\<close> or
  \<open>null\<close>), is not a string, or trims to the empty string, the title is the fixed fallback
  title; otherwise it is the model's text, unchanged.
\<close>

theorem generateTitle_total:
  "\<exists>title. fst (generateTitleFromUserMessage generateText w) = Inr title \<and> title \<noteq> [] \<and>
     ((\<exists>e. generateText = Inl e) \<longrightarrow> title = fallbackTitle) \<and>
     (generateText = Inr Undefined \<or> generateText = Inr Null \<longrightarrow> title = fallbackTitle) \<and>
     ((\<exists>v. generateText = Inr v \<and> typeof v \<noteq> ''string'') \<longrightarrow> title = fallbackTitle) \<and>
     ((\<exists>s. generateText = Inr (Str s) \<and> trim s = []) \<longrightarrow> title = fallbackTitle) \<and>
     (\<forall>s. generateText = Inr (Str s) \<and> trim s \<noteq> [] \<longrightarrow> title = s)"
proof (cases generateText)
  case (Inl e)
  then show ?thesis
    by (simp add: generateTitleFromUserMessage_def io_defs fallbackTitle_nonempty)
next
  case (Inr v)
  then show ?thesis
    by (cases v) (auto simp: generateTitleFromUserMessage_def io_defs fallbackTitle_nonempty
        dest: trim_nonempty)
qed

text \<open>
  Claim C9 at three calls: a text of white space only, a call that throws, and the text
  \<open>Diet plan\<close>.
\<close>

theorem generateTitle_total_witness:
  "trim [32, 9, 10] = [] \<and>
   fst (generateTitleFromUserMessage (Inr (Str [32, 9, 10])) w0) = Inr fallbackTitle \<and>
   fst (generateTitleFromUserMessage (Inl TypeError) w0) = Inr fallbackTitle \<and>
   fst (generateTitleFromUserMessage (Inr (Str (ascii ''Diet plan''))) w0)
     = Inr (ascii ''Diet plan'')"
  using generateTitle_total [of "Inr (Str [32, 9, 10])" w0]
    generateTitle_total [of "Inl TypeError" w0]
    generateTitle_total [of "Inr (Str (ascii ''Diet plan''))" w0]
  by (auto simp: trim_def isWhiteSpace_def ascii_def)

subsection \<open>System prompt and active tools\<close>

lemma of_char_eq_42: "(of_char c :: nat) = 42 \<longleftrightarrow> c = CHR ''*''"
proof -
  have "(of_char c :: nat) = of_char (CHR ''*'') \<longleftrightarrow> c = CHR ''*''"
    by (rule of_char_eq_iff)
  then show ?thesis by simp
qed

lemma asterisk_ascii: "42 \<in> set (ascii s) \<longleftrightarrow> CHR ''*'' \<in> set s"
  by (auto simp: ascii_def of_char_eq_42)

lemma no_asterisk_disclaimerFa: "42 \<notin> set disclaimerFa"
  by (simp add: disclaimerFa_def)

lemma no_asterisk_regularPrompt: "42 \<notin> set regularPrompt"
  by (simp add: regularPrompt_def asterisk_ascii no_asterisk_disclaimerFa)

lemma no_asterisk_healthPrompt: "42 \<notin> set healthPrompt"
  by (simp add: healthPrompt_def asterisk_ascii no_asterisk_disclaimerFa)

lemma asterisk_artifactsPrompt: "42 \<in> set artifactsPrompt"
  by (simp add: artifactsPrompt_def asterisk_ascii)

lemma sublist_set: "sublist xs ys \<Longrightarrow> set xs \<subseteq> set ys"
  by (auto simp: sublist_def)

text \<open>
  Claim C10. With \<open>selectedChatModel = 'chat-model-reasoning'\<close> the model is called with no
  active tool and with the system prompt \<open>regularPrompt\<close>, \<open>healthPrompt\<close> and the request
  prompt, separated by blank lines, and nothing after them: the artifacts instructions do not
  occur in it (they contain an asterisk, which the two base prompts never do, so this holds
  whenever the request hints bring none). With any other model the four tools are active
  and the artifacts instructions are appended. In both cases the system prompt contains the
  regular prompt and the health prompt.
\<close>

theorem streamText_prompt_and_tools:
  "(b_selectedChatModel b = ''chat-model-reasoning'' \<longrightarrow>
      st_experimental_activeTools (streamTextCall b h ms) = [] \<and>
      st_system (streamTextCall b h ms) =
        regularPrompt @ [10, 10] @ healthPrompt @ [10, 10] @ getRequestPromptFromHints h \<and>
      (42 \<notin> set (getRequestPromptFromHints h) \<longrightarrow>
         \<not> sublist artifactsPrompt (st_system (streamTextCall b h ms)))) \<and>
   (b_selectedChatModel b \<noteq> ''chat-model-reasoning'' \<longrightarrow>
      st_experimental_activeTools (streamTextCall b h ms) =
        [''getWeather'', ''createDocument'', ''updateDocument'', ''requestSuggestions''] \<and>
      st_system (streamTextCall b h ms) =
        regularPrompt @ [10, 10] @ healthPrompt @ [10, 10] @ getRequestPromptFromHints h
          @ [10, 10] @ artifactsPrompt \<and>
      sublist artifactsPrompt (st_system (streamTextCall b h ms))) \<and>
   sublist regularPrompt (st_system (streamTextCall b h ms)) \<and>
   sublist healthPrompt (st_system (streamTextCall b h ms))"
proof -
  have omit: "\<not> sublist artifactsPrompt
      (regularPrompt @ [10, 10] @ healthPrompt @ [10, 10] @ getRequestPromptFromHints h)"
    if "42 \<notin> set (getRequestPromptFromHints h)"
  proof
    assume "sublist artifactsPrompt
      (regularPrompt @ [10, 10] @ healthPrompt @ [10, 10] @ getRequestPromptFromHints h)"
    then have "42 \<in> set (regularPrompt @ [10, 10] @ healthPrompt @ [10, 10]
        @ getRequestPromptFromHints h)"
      using asterisk_artifactsPrompt sublist_set by blast
    with that show False
      by (simp add: no_asterisk_regularPrompt no_asterisk_healthPrompt)
  qed
  have reg: "sublist regularPrompt (regularPrompt @ rest)" for rest
    unfolding sublist_def by (intro exI [of _ "[]"] exI [of _ rest]) simp
  have hea: "sublist healthPrompt (regularPrompt @ [10, 10] @ healthPrompt @ rest)" for rest
    using sublist_appendI [of healthPrompt "regularPrompt @ [10, 10]" rest] by simp
  have art: "sublist artifactsPrompt (pre @ artifactsPrompt)" for pre
    using sublist_appendI [of artifactsPrompt pre "[]"] by simp
  show ?thesis
    using omit reg hea art [of "regularPrompt @ [10, 10] @ healthPrompt @ [10, 10] @ getRequestPromptFromHints h @ [10, 10]"]
    by (simp add: streamTextCall_def systemPrompt_def Let_def)
qed

text \<open>
  Claim C10 for a request without geolocation, once with the reasoning model and once with
  \<open>chat-model\<close>.
\<close>

theorem streamText_prompt_and_tools_witness:
  "42 \<notin> set (getRequestPromptFromHints noHints) \<and>
   st_experimental_activeTools (streamTextCall (exampleBody ''chat-model-reasoning'') noHints []) = [] \<and>
   \<not> sublist artifactsPrompt
       (st_system (streamTextCall (exampleBody ''chat-model-reasoning'') noHints [])) \<and>
   st_experimental_activeTools (streamTextCall (exampleBody ''chat-model'') noHints []) =
     [''getWeather'', ''createDocument'', ''updateDocument'', ''requestSuggestions''] \<and>
   sublist artifactsPrompt (st_system (streamTextCall (exampleBody ''chat-model'') noHints []))"
proof -
  have h: "42 \<notin> set (getRequestPromptFromHints noHints)"
    by (simp add: getRequestPromptFromHints_def noHints_def interpolate_def asterisk_ascii)
  have m1: "b_selectedChatModel (exampleBody ''chat-model-reasoning'') = ''chat-model-reasoning''"
    by (simp add: exampleBody_def)
  have m2: "b_selectedChatModel (exampleBody ''chat-model'') \<noteq> ''chat-model-reasoning''"
    by (simp add: exampleBody_def)
  show ?thesis
    using streamText_prompt_and_tools [of "exampleBody ''chat-model-reasoning''" noHints "[]"]
      streamText_prompt_and_tools [of "exampleBody ''chat-model''" noHints "[]"] h m1 m2
    by blast
qed

subsection \<open>\<open>POST\<close>: validation, authentication, quota\<close>

text \<open>
  Claim C8. A \<open>POST\<close> whose body does not parse or does not match the schema is answered
  with \<open>bad_request:api\<close>, and nothing was called but \<open>console.error\<close>: no
  authentication, no state change. A \<open>POST\<close> with a valid body and no authenticated session
  is answered with \<open>unauthorized:chat\<close>, and nothing was called but \<open>auth\<close>: no quota
  check, no write.
\<close>

theorem POST_validates_then_authenticates:
  "(\<forall>error. p_body env = Inl error \<longrightarrow>
      POST env w = (Inr (ChatSDKErrorResponse ''bad_request:api''),
                    w\<lparr>trace := trace w @ [ConsoleError ''Error parsing request body:'']\<rparr>)) \<and>
   (\<forall>requestBody. p_body env = Inr requestBody \<and> p_auth env = Inr None \<longrightarrow>
      POST env w = (Inr (ChatSDKErrorResponse ''unauthorized:chat''),
                    w\<lparr>trace := trace w @ [Auth]\<rparr>))"
  by (simp add: POST_def handlePost_def io_defs)

text \<open>
  Claim C8 at a body that is not JSON and at a valid body without a session.
\<close>

theorem POST_validates_then_authenticates_witness:
  "POST (examplePost (Inl (Error (ascii ''Unexpected end of JSON input''))) (Some alice) 0 None
      (Inr StreamContext)) w0 =
     (Inr (ChatSDKErrorResponse ''bad_request:api''),
      w0\<lparr>trace := [ConsoleError ''Error parsing request body:'']\<rparr>) \<and>
   POST (examplePost (Inr (exampleBody ''chat-model'')) None 0 None (Inr StreamContext)) w0 =
     (Inr (ChatSDKErrorResponse ''unauthorized:chat''), w0\<lparr>trace := [Auth]\<rparr>)"
  using POST_validates_then_authenticates [of "examplePost
      (Inl (Error (ascii ''Unexpected end of JSON input''))) (Some alice) 0 None
      (Inr StreamContext)" w0]
    POST_validates_then_authenticates [of "examplePost (Inr (exampleBody ''chat-model'')) None 0
      None (Inr StreamContext)" w0]
  by (simp add: examplePost_def w0_def)

lemma ensureUser_returns:
  "\<exists>added. ensureUser env user w = (Inr (), w\<lparr>trace := trace w @ added\<rparr>)
     \<and> (\<forall>e \<in> set added. \<not> chatWork e)"
  by (cases "p_selectUser env"; cases "p_insertUser env")
     (simp_all add: ensureUser_def io_defs ex_trace_extension)

lemma ensureUser_fst: "fst (ensureUser env user w) = Inr ()"
  using ensureUser_returns [of env user w] by auto

text \<open>
  Claim C2. A \<open>POST\<close> of an authenticated user (with a body that passed validation) whose
  count of messages in the last 24 hours exceeds \<open>maxMessagesPerDay\<close> of the user's tier
  is answered with \<open>rate_limit:chat\<close>. Up to that answer the handler has created no chat,
  saved no message, registered no stream and invoked no model, so the rejected request
  does not add to the count and the next request meets the same check.
\<close>

theorem POST_rate_limit:
  assumes body: "p_body env = Inr requestBody"
    and session: "p_auth env = Inr (Some user)"
    and count: "p_messageCount env = Inr messageCount"
    and over: "messageCount > p_maxMessagesPerDay env (utype user)"
  shows "\<exists>added. POST env w =
           (Inr (ChatSDKErrorResponse ''rate_limit:chat''), w\<lparr>trace := trace w @ added\<rparr>)
         \<and> (\<forall>e \<in> set added. \<not> chatWork e)"
proof -
  obtain added where eu: "ensureUser env user (w\<lparr>trace := trace w @ [Auth]\<rparr>) =
      (Inr (), w\<lparr>trace := trace w @ [Auth] @ added\<rparr>)"
    and quiet: "\<forall>e \<in> set added. \<not> chatWork e"
    using ensureUser_returns [of env user "w\<lparr>trace := trace w @ [Auth]\<rparr>"] by auto
  have "POST env w = (Inr (ChatSDKErrorResponse ''rate_limit:chat''),
      w\<lparr>trace := trace w @ ([Auth] @ added @ [GetMessageCountByUserId (uid user) 24])\<rparr>)"
    using body session count over eu
    by (simp add: POST_def handlePost_def io_defs)
  moreover have "\<forall>e \<in> set ([Auth] @ added @ [GetMessageCountByUserId (uid user) 24]). \<not> chatWork e"
    using quiet by simp
  ultimately show ?thesis by blast
qed

text \<open>
  Claim C2 for a user with 101 messages and a daily maximum of 100.
\<close>

theorem POST_rate_limit_witness:
  "p_maxMessagesPerDay (examplePost (Inr (exampleBody ''chat-model'')) (Some alice) 101 None
      (Inr StreamContext)) (utype alice) < 101 \<and>
   fst (POST (examplePost (Inr (exampleBody ''chat-model'')) (Some alice) 101 None
      (Inr StreamContext)) w0) = Inr (ChatSDKErrorResponse ''rate_limit:chat'') \<and>
   filter chatWork (trace (snd (POST (examplePost (Inr (exampleBody ''chat-model'')) (Some alice)
      101 None (Inr StreamContext)) w0))) = []"
  using POST_rate_limit [where w = w0 and requestBody = "exampleBody ''chat-model''"
      and user = alice and messageCount = 101
      and env = "examplePost (Inr (exampleBody ''chat-model'')) (Some alice) 101 None
        (Inr StreamContext)"]
  by (auto simp: examplePost_def w0_def filter_empty_conv)

subsection \<open>Chats of other users\<close>

text \<open>
  Claim C3 as stated fails on the read path: \<open>GET\<close> checks the owner of private chats
  only, so alice resumes the stream of bob's public chat.
\<close>

theorem GET_public_chat_counterexample:
  "c_userId (chatOfBob ''public'') \<noteq> uid alice \<and>
   fst (GET (exampleGet (chatOfBob ''public'') True 0 []) w0) =
     Inr (Response 200 (StreamBody (Resumable ''s1'' (Written []))))"
  by (simp add: GET_def getStreamContext_def io_defs Let_def
      exampleGet_def chatOfBob_def alice_def w0_def)

text \<open>
  Claim C3, amended. A request of an authenticated user for an existing chat of another user
  is answered with \<open>forbidden:chat\<close> by \<open>DELETE\<close>, by \<open>POST\<close> (for a user within the daily
  quota), and by \<open>GET\<close> when the chat is private (and resumable streams are available).
\<close>

theorem forbidden_for_chat_of_other_user:
  "((globalStreamContext w = Some ctx \<or> g_createContext genv = Inr ctx) \<and>
    g_chatId genv = Some chatId \<and> chatId \<noteq> [] \<and> g_auth genv = Inr (Some user) \<and>
    g_chat genv = Inr (Some chat) \<and> c_userId chat \<noteq> uid user \<and>
    c_visibility chat = ''private'' \<longrightarrow>
      fst (GET genv w) = Inr (ChatSDKErrorResponse ''forbidden:chat'')) \<and>
   (d_id denv = Some chatId \<and> chatId \<noteq> [] \<and> d_auth denv = Inr (Some user) \<and>
    d_chat denv = Inr (Some chat) \<and> c_userId chat \<noteq> uid user \<longrightarrow>
      fst (DELETE denv w) = Inr (ChatSDKErrorResponse ''forbidden:chat'')) \<and>
   (p_body penv = Inr requestBody \<and> p_auth penv = Inr (Some user) \<and>
    p_messageCount penv = Inr messageCount \<and>
    messageCount \<le> p_maxMessagesPerDay penv (utype user) \<and>
    p_chat penv = Inr (Some chat) \<and> c_userId chat \<noteq> uid user \<longrightarrow>
      fst (POST penv w) = Inr (ChatSDKErrorResponse ''forbidden:chat''))"
proof (intro conjI impI)
  assume "(globalStreamContext w = Some ctx \<or> g_createContext genv = Inr ctx) \<and>
    g_chatId genv = Some chatId \<and> chatId \<noteq> [] \<and> g_auth genv = Inr (Some user) \<and>
    g_chat genv = Inr (Some chat) \<and> c_userId chat \<noteq> uid user \<and>
    c_visibility chat = ''private''"
  then show "fst (GET genv w) = Inr (ChatSDKErrorResponse ''forbidden:chat'')"
    by (cases "globalStreamContext w"; cases "g_createContext genv")
       (auto simp: GET_def getStreamContext_def io_defs Let_def)
next
  assume "d_id denv = Some chatId \<and> chatId \<noteq> [] \<and> d_auth denv = Inr (Some user) \<and>
    d_chat denv = Inr (Some chat) \<and> c_userId chat \<noteq> uid user"
  then show "fst (DELETE denv w) = Inr (ChatSDKErrorResponse ''forbidden:chat'')"
    by (simp add: DELETE_def io_defs)
next
  assume a: "p_body penv = Inr requestBody \<and> p_auth penv = Inr (Some user) \<and>
    p_messageCount penv = Inr messageCount \<and>
    messageCount \<le> p_maxMessagesPerDay penv (utype user) \<and>
    p_chat penv = Inr (Some chat) \<and> c_userId chat \<noteq> uid user"
  have "fst (handlePost penv requestBody w) = Inr (ChatSDKErrorResponse ''forbidden:chat'')"
    using a ensureUser_fst [of penv user "w\<lparr>trace := trace w @ [Auth]\<rparr>"]
    by (cases "ensureUser penv user (w\<lparr>trace := trace w @ [Auth]\<rparr>)")
       (simp add: handlePost_def io_defs Let_def)
  then show "fst (POST penv w) = Inr (ChatSDKErrorResponse ''forbidden:chat'')"
    using a
    by (cases "handlePost penv requestBody w") (simp add: POST_def io_defs)
qed

text \<open>
  Claim C3, amended, for alice and a chat of bob: private for \<open>GET\<close>, public for
  \<open>DELETE\<close> and \<open>POST\<close>.
\<close>

theorem forbidden_for_chat_of_other_user_witness:
  "c_userId (chatOfBob ''private'') \<noteq> uid alice \<and>
   fst (GET (exampleGet (chatOfBob ''private'') True 0 []) w0) =
     Inr (ChatSDKErrorResponse ''forbidden:chat'') \<and>
   fst (DELETE (exampleDelete (Some (chatOfBob ''public''))) w0) =
     Inr (ChatSDKErrorResponse ''forbidden:chat'') \<and>
   fst (POST (examplePost (Inr (exampleBody ''chat-model'')) (Some alice) 3
          (Some (chatOfBob ''public'')) (Inr StreamContext)) w0) =
     Inr (ChatSDKErrorResponse ''forbidden:chat'')"
  using forbidden_for_chat_of_other_user [where w = w0 and ctx = StreamContext
      and chatId = "''c1''" and user = alice and chat = "chatOfBob ''private''"
      and genv = "exampleGet (chatOfBob ''private'') True 0 []"
      and denv = "exampleDelete (Some (chatOfBob ''private''))"
      and penv = "examplePost (Inr (exampleBody ''chat-model'')) (Some alice) 3
          (Some (chatOfBob ''private'')) (Inr StreamContext)"
      and requestBody = "exampleBody ''chat-model''" and messageCount = 3]
    forbidden_for_chat_of_other_user [where w = w0 and ctx = StreamContext
      and chatId = "''c1''" and user = alice and chat = "chatOfBob ''public''"
      and genv = "exampleGet (chatOfBob ''public'') True 0 []"
      and denv = "exampleDelete (Some (chatOfBob ''public''))"
      and penv = "examplePost (Inr (exampleBody ''chat-model'')) (Some alice) 3
          (Some (chatOfBob ''public'')) (Inr StreamContext)"
      and requestBody = "exampleBody ''chat-model''" and messageCount = 3]
  by (simp add: exampleGet_def exampleDelete_def examplePost_def chatOfBob_def alice_def)

subsection \<open>\<open>GET\<close>: unsupported, not found, replay\<close>

text \<open>
  Claim C4 as stated fails: for a private chat of another user that has no stream id,
  \<open>GET\<close> answers \<open>forbidden:chat\<close>, not \<open>not_found:stream\<close>; and for a request without a
  session that names a chat that does not exist it answers \<open>unauthorized:chat\<close>, not
  \<open>not_found:chat\<close>.
\<close>

theorem GET_not_found_stream_counterexample:
  "g_chat ((exampleGet (chatOfBob ''private'') True 0 []) \<lparr>g_streamIds := Inr []\<rparr>)
     = Inr (Some (chatOfBob ''private'')) \<and>
   g_streamIds ((exampleGet (chatOfBob ''private'') True 0 []) \<lparr>g_streamIds := Inr []\<rparr>)
     = Inr [] \<and>
   fst (GET ((exampleGet (chatOfBob ''private'') True 0 []) \<lparr>g_streamIds := Inr []\<rparr>) w0)
     = Inr (ChatSDKErrorResponse ''forbidden:chat'') \<and>
   g_chat ((exampleGet (chatOfBob ''public'') True 0 [])
       \<lparr>g_auth := Inr None, g_chat := Inr None\<rparr>) = Inr None \<and>
   fst (GET ((exampleGet (chatOfBob ''public'') True 0 [])
       \<lparr>g_auth := Inr None, g_chat := Inr None\<rparr>) w0)
     = Inr (ChatSDKErrorResponse ''unauthorized:chat'')"
  by (simp add: GET_def getStreamContext_def io_defs Let_def
      exampleGet_def chatOfBob_def alice_def w0_def)

text \<open>
  Claim C4, amended. When no stream context could be created, \<open>GET\<close> answers with status
  204 and no body, whatever else the request holds. Otherwise, for an authenticated request
  that names a chat: when the chat does not exist (the lookup returns nothing, or throws) the
  answer is \<open>not_found:chat\<close>; when the chat exists, may be read by the caller (it is not
  private, or the caller owns it) and has no stream id, the answer is \<open>not_found:stream\<close>.
\<close>

theorem GET_unsupported_and_not_found:
  "(globalStreamContext w = None \<and> g_createContext env = Inl message \<longrightarrow>
      fst (GET env w) = Inr (Response 204 NoBody)) \<and>
   ((globalStreamContext w = Some ctx \<or> g_createContext env = Inr ctx) \<and>
    g_chatId env = Some chatId \<and> chatId \<noteq> [] \<and> g_auth env = Inr (Some user) \<longrightarrow>
      (g_chat env = Inr None \<or> g_chat env = Inl e \<longrightarrow>
         fst (GET env w) = Inr (ChatSDKErrorResponse ''not_found:chat'')) \<and>
      (g_chat env = Inr (Some chat) \<and>
       (c_visibility chat \<noteq> ''private'' \<or> c_userId chat = uid user) \<and>
       g_streamIds env = Inr [] \<longrightarrow>
         fst (GET env w) = Inr (ChatSDKErrorResponse ''not_found:stream'')))"
  by (cases "globalStreamContext w"; cases "g_createContext env")
     (auto simp: GET_def getStreamContext_def io_defs Let_def)

text \<open>
  Claim C4, amended, at four requests: no registry, no chat, a failing lookup, no stream id.
\<close>

theorem GET_unsupported_and_not_found_witness:
  "fst (GET ((exampleGet (chatOfBob ''public'') True 0 [])
         \<lparr>g_createContext := Inl (ascii ''REDIS_URL environment variable is not set'')\<rparr>) w0)
     = Inr (Response 204 NoBody) \<and>
   fst (GET ((exampleGet (chatOfBob ''public'') True 0 []) \<lparr>g_chat := Inr None\<rparr>) w0)
     = Inr (ChatSDKErrorResponse ''not_found:chat'') \<and>
   fst (GET ((exampleGet (chatOfBob ''public'') True 0 [])
         \<lparr>g_chat := Inl (ChatSDKError ''bad_request:database'')\<rparr>) w0)
     = Inr (ChatSDKErrorResponse ''not_found:chat'') \<and>
   fst (GET ((exampleGet (chatOfBob ''public'') True 0 []) \<lparr>g_streamIds := Inr []\<rparr>) w0)
     = Inr (ChatSDKErrorResponse ''not_found:stream'')"
  using GET_unsupported_and_not_found [where w = w0 and ctx = StreamContext
      and message = "ascii ''REDIS_URL environment variable is not set''"
      and env = "(exampleGet (chatOfBob ''public'') True 0 [])
         \<lparr>g_createContext := Inl (ascii ''REDIS_URL environment variable is not set'')\<rparr>"]
    GET_unsupported_and_not_found [where w = w0 and ctx = StreamContext and user = alice
      and chatId = "''c1''"
      and env = "(exampleGet (chatOfBob ''public'') True 0 []) \<lparr>g_chat := Inr None\<rparr>"]
    GET_unsupported_and_not_found [where w = w0 and ctx = StreamContext and user = alice
      and chatId = "''c1''" and e = "ChatSDKError ''bad_request:database''"
      and env = "(exampleGet (chatOfBob ''public'') True 0 [])
         \<lparr>g_chat := Inl (ChatSDKError ''bad_request:database'')\<rparr>"]
    GET_unsupported_and_not_found [where w = w0 and ctx = StreamContext and user = alice
      and chatId = "''c1''" and chat = "chatOfBob ''public''"
      and env = "(exampleGet (chatOfBob ''public'') True 0 []) \<lparr>g_streamIds := Inr []\<rparr>"]
  by (simp add: exampleGet_def chatOfBob_def w0_def)

lemma differenceInSeconds_gt_15:
  "differenceInSeconds laterDate earlierDate > 15 \<longleftrightarrow> laterDate - earlierDate \<ge> 16000"
  by (auto simp: differenceInSeconds_def Let_def)

lemma replay_result:
  "g_messages env = Inr messages \<Longrightarrow>
   fst (replay env chatId now (Written []) w) =
     Inr (Response 200 (StreamBody
       (if messages \<noteq> [] \<and> m_role (last messages) = ''assistant''
           \<and> now - m_createdAt (last messages) < 16000
        then Written [AppendMessage (last messages)] else Written [])))"
  by (cases messages)
     (auto simp: replay_def io_defs Let_def differenceInSeconds_gt_15 simp del: last.simps)

lemma GET_reaches_replay:
  assumes "globalStreamContext w = Some ctx \<or> g_createContext env = Inr ctx"
    and "g_chatId env = Some chatId" "chatId \<noteq> []"
    and "g_auth env = Inr (Some user)"
    and "g_chat env = Inr (Some chat)"
    and "c_visibility chat \<noteq> ''private'' \<or> c_userId chat = uid user"
    and "g_streamIds env = Inr streamIds" "streamIds \<noteq> []" "last streamIds \<noteq> []"
    and "g_resumableStream env = Inr False"
  shows "\<exists>w'. GET env w = replay env chatId (g_now env) (Written []) w'"
proof (cases "globalStreamContext w")
  case None
  with assms have "GET env w = replay env chatId (g_now env) (Written [])
      (w\<lparr>globalStreamContext := Some ctx,
         trace := trace w @ [CreateResumableStreamContext, Auth, GetChatById chatId,
           GetStreamIdsByChatId chatId, ResumableStream (last streamIds)]\<rparr>)"
    by (auto simp: GET_def getStreamContext_def io_defs Let_def)
  then show ?thesis by blast
next
  case (Some c)
  with assms have "GET env w = replay env chatId (g_now env) (Written [])
      (w\<lparr>trace := trace w @ [Auth, GetChatById chatId,
           GetStreamIdsByChatId chatId, ResumableStream (last streamIds)]\<rparr>)"
    by (auto simp: GET_def getStreamContext_def io_defs Let_def)
  then show ?thesis by blast
qed

text \<open>
  Claim C1 as stated fails: an assistant message created 15.5 seconds before the resume
  request is older than 15 seconds and is still replayed.
\<close>

theorem GET_replay_window_counterexample:
  "m_role (assistantMessageAt 0) = ''assistant'' \<and>
   15000 < g_now (exampleGet (chatOfBob ''public'') False 15500 [assistantMessageAt 0])
            - m_createdAt (assistantMessageAt 0) \<and>
   fst (GET (exampleGet (chatOfBob ''public'') False 15500 [assistantMessageAt 0]) w0) =
     Inr (Response 200 (StreamBody (Written [AppendMessage (assistantMessageAt 0)])))"
  by (simp add: GET_def getStreamContext_def replay_def io_defs Let_def differenceInSeconds_def
      exampleGet_def chatOfBob_def assistantMessageAt_def alice_def w0_def)

text \<open>
  Claim C1, amended. A \<open>GET\<close> that reaches the resumable stream and finds it concluded
  (\<open>resumableStream\<close> resolved to \<open>null\<close>) answers with status 200 and a data stream that
  holds the last message of the chat once, as one \<open>append-message\<close> part, when that message
  is an assistant message and fewer than 16 seconds (16000 ms) lie between its creation and
  the resume request: \<open>differenceInSeconds\<close> counts whole seconds, so the window closes
  when it exceeds 15. In every other case (16 seconds or more, another role, no message)
  the data stream is empty.
\<close>

theorem GET_replay_window:
  assumes registry: "globalStreamContext w = Some ctx \<or> g_createContext env = Inr ctx"
    and chatId: "g_chatId env = Some chatId" "chatId \<noteq> []"
    and session: "g_auth env = Inr (Some user)"
    and chat: "g_chat env = Inr (Some chat)"
    and readable: "c_visibility chat \<noteq> ''private'' \<or> c_userId chat = uid user"
    and streamIds: "g_streamIds env = Inr streamIds" "streamIds \<noteq> []" "last streamIds \<noteq> []"
    and concluded: "g_resumableStream env = Inr False"
    and messages: "g_messages env = Inr messages"
  shows "fst (GET env w) =
     Inr (Response 200 (StreamBody
       (if messages \<noteq> [] \<and> m_role (last messages) = ''assistant''
           \<and> g_now env - m_createdAt (last messages) < 16000
        then Written [AppendMessage (last messages)] else Written [])))"
proof -
  obtain w' where "GET env w = replay env chatId (g_now env) (Written []) w'"
    using GET_reaches_replay [OF registry chatId session chat readable streamIds concluded]
    by blast
  then show ?thesis
    by (simp only: replay_result [OF messages])
qed

text \<open>
  Claim C1, amended, at the two edges of the window: 15999 ms and 16000 ms after the
  message was created.
\<close>

theorem GET_replay_window_witness:
  "fst (GET (exampleGet (chatOfBob ''public'') False 15999 [assistantMessageAt 0]) w0) =
     Inr (Response 200 (StreamBody (Written [AppendMessage (assistantMessageAt 0)]))) \<and>
   fst (GET (exampleGet (chatOfBob ''public'') False 16000 [assistantMessageAt 0]) w0) =
     Inr (Response 200 (StreamBody (Written [])))"
  using GET_replay_window [where w = w0 and ctx = StreamContext and chatId = "''c1''"
      and env = "exampleGet (chatOfBob ''public'') False 15999 [assistantMessageAt 0]"
      and user = alice and chat = "chatOfBob ''public''" and streamIds = "[''s1'']"
      and messages = "[assistantMessageAt 0]"]
    GET_replay_window [where w = w0 and ctx = StreamContext and chatId = "''c1''"
      and env = "exampleGet (chatOfBob ''public'') False 16000 [assistantMessageAt 0]"
      and user = alice and chat = "chatOfBob ''public''" and streamIds = "[''s1'']"
      and messages = "[assistantMessageAt 0]"]
  by (simp add: exampleGet_def chatOfBob_def assistantMessageAt_def)

subsection \<open>Exceptions that leave a handler\<close>

lemma POST_never_throws: "\<exists>response. fst (POST env w) = Inr response"
proof (cases "p_body env")
  case (Inl error)
  then show ?thesis by (simp add: POST_def io_defs)
next
  case (Inr requestBody)
  show ?thesis
  proof (cases "handlePost env requestBody w")
    case (Pair outcome w')
    then show ?thesis
      using Inr by (cases outcome) (auto simp: POST_def io_defs split: exn.splits)
  qed
qed

lemma DELETE_owned_chat:
  "d_id env = Some chatId \<Longrightarrow> chatId \<noteq> [] \<Longrightarrow> d_auth env = Inr (Some user) \<Longrightarrow>
   d_chat env = Inr (Some chat) \<Longrightarrow> c_userId chat = uid user \<Longrightarrow>
   fst (DELETE env w) =
     (case d_deleteChatById env of
        Inl e \<Rightarrow> Inl e
      | Inr None \<Rightarrow> Inl TypeError
      | Inr (Some deleted) \<Rightarrow> Inr (Response 200 (DeletedChatJson deleted)))"
  by (simp add: DELETE_def io_defs split: sum.splits option.splits)

lemma GET_lets_exceptions_escape:
  "fst (GET ((exampleGet (chatOfBob ''public'') False 0 [])
         \<lparr>g_messages := Inl (ChatSDKError ''bad_request:database'')\<rparr>) w0)
     = Inl (ChatSDKError ''bad_request:database'')"
  by (simp add: GET_def getStreamContext_def replay_def io_defs Let_def
      exampleGet_def chatOfBob_def alice_def w0_def)

text \<open>
  Claim C5 fails on the code. \<open>DELETE\<close> has no \<open>try\<close>: for the id of a chat that does not
  exist, \<open>chat.userId\<close> throws a \<open>TypeError\<close> that leaves the handler. (\<open>POST\<close> catches
  everything, as \<open>POST_never_throws\<close> shows; \<open>GET\<close> does not, as
  \<open>GET_lets_exceptions_escape\<close> shows.)
\<close>

theorem DELETE_missing_chat_throws:
  "fst (DELETE (exampleDelete None) w0) = Inl TypeError"
  by (simp add: DELETE_def exampleDelete_def io_defs)

subsection \<open>\<open>onFinish\<close>\<close>

lemma safeParts_returns:
  "\<exists>parts added. safeParts assistantMessage w = (Inr parts, w\<lparr>trace := trace w @ added\<rparr>)
     \<and> (\<forall>l \<in> set added. \<not> chatWork l)"
  by (simp add: safeParts_def io_defs ex_trace_extension)

text \<open>
  Claim C6. \<open>onFinish\<close> never throws, so the stream the client reads ends as the model's
  output ends, with no error part. When the save of the assistant message is reached and
  fails, the write was attempted once, the failure was logged with \<open>console.error\<close>, and
  nothing was called after that: before the save there are console logs only.
\<close>

theorem onFinish_swallows_save_failure:
  "fst (onFinish user chatId env w) = Inr () \<and>
   clientStream chunks (fst (onFinish user chatId env w)) = map ModelPart chunks \<and>
   (uid user \<noteq> [] \<and>
    f_getTrailingMessageId env
      (filter (\<lambda>message. r_role message = ''assistant'') (f_responseMessages env))
      = Some assistantId \<and>
    assistantId \<noteq> [] \<and>
    f_appendResponseMessages env = Inr (userMessage # assistantMessage # rest) \<and>
    f_saveMessages env = Inl e \<longrightarrow>
      (\<exists>logs saved.
         snd (onFinish user chatId env w) =
           w\<lparr>trace := trace w @ logs
                  @ [SaveMessages saved, ConsoleError ''Error in onFinish handler:'']\<rparr>
         \<and> (\<forall>l \<in> set logs. \<not> chatWork l)))"
proof (intro conjI impI)
  show returns: "fst (onFinish user chatId env w) = Inr ()"
    by (simp add: onFinish_def try_catch_emit) (simp add: ret_def)
  then show "clientStream chunks (fst (onFinish user chatId env w)) = map ModelPart chunks"
    by (simp add: clientStream_def)
next
  assume a: "uid user \<noteq> [] \<and>
    f_getTrailingMessageId env
      (filter (\<lambda>message. r_role message = ''assistant'') (f_responseMessages env))
      = Some assistantId \<and>
    assistantId \<noteq> [] \<and>
    f_appendResponseMessages env = Inr (userMessage # assistantMessage # rest) \<and>
    f_saveMessages env = Inl e"
  obtain parts added where sp:
    "safeParts assistantMessage (w\<lparr>trace := trace w @ [ConsoleLog ''Raw assistantMessage:'']\<rparr>) =
       (Inr parts, w\<lparr>trace := trace w @ [ConsoleLog ''Raw assistantMessage:''] @ added\<rparr>)"
    and quiet: "\<forall>l \<in> set added. \<not> chatWork l"
    using safeParts_returns
      [of assistantMessage "w\<lparr>trace := trace w @ [ConsoleLog ''Raw assistantMessage:'']\<rparr>"]
    by auto
  have "snd (onFinish user chatId env w) =
      w\<lparr>trace := trace w @
          ([ConsoleLog ''Raw assistantMessage:''] @ added
             @ [ConsoleLog ''Formatted message to save:''])
          @ [SaveMessages
               [\<lparr>m_id = assistantId, m_chatId = chatId, m_role = a_role assistantMessage,
                 m_parts = parts,
                 m_attachments =
                   (case a_experimental_attachments assistantMessage of
                      Some xs \<Rightarrow> xs | None \<Rightarrow> []),
                 m_createdAt = f_now env\<rparr>],
             ConsoleError ''Error in onFinish handler:'']\<rparr>"
    using a sp by (simp add: onFinish_def io_defs Let_def)
  moreover have "\<forall>l \<in> set ([ConsoleLog ''Raw assistantMessage:''] @ added
      @ [ConsoleLog ''Formatted message to save:'']). \<not> chatWork l"
    using quiet by simp
  ultimately show "\<exists>logs saved.
      snd (onFinish user chatId env w) =
        w\<lparr>trace := trace w @ logs
               @ [SaveMessages saved, ConsoleError ''Error in onFinish handler:'']\<rparr>
      \<and> (\<forall>l \<in> set logs. \<not> chatWork l)"
    by blast
qed

text \<open>
  Claim C6 for a save that fails with a database error.
\<close>

theorem onFinish_swallows_save_failure_witness:
  "fst (onFinish alice ''c1'' (exampleFinish (Inl (ChatSDKError ''bad_request:database''))) w0)
     = Inr () \<and>
   clientStream [1, 2, 3 :: nat]
     (fst (onFinish alice ''c1'' (exampleFinish (Inl (ChatSDKError ''bad_request:database''))) w0))
     = [ModelPart 1, ModelPart 2, ModelPart 3] \<and>
   last (trace (snd (onFinish alice ''c1''
     (exampleFinish (Inl (ChatSDKError ''bad_request:database''))) w0)))
     = ConsoleError ''Error in onFinish handler:''"
  using onFinish_swallows_save_failure [where w = w0 and user = alice and chatId = "''c1''"
      and env = "exampleFinish (Inl (ChatSDKError ''bad_request:database''))"
      and chunks = "[1, 2, 3 :: nat]" and assistantId = "''m2''"
      and e = "ChatSDKError ''bad_request:database''"
      and userMessage = "\<lparr>a_role = ''user'', a_parts = Some [TextPart (ascii ''hello'')],
               a_content = Str (ascii ''hello''), a_experimental_attachments = None\<rparr>"
      and assistantMessage = "\<lparr>a_role = ''assistant'', a_parts = Some [TextPart (ascii ''hi'')],
               a_content = Str (ascii ''hi''), a_experimental_attachments = None\<rparr>"
      and rest = "[]"]
  by (auto simp: exampleFinish_def alice_def)

subsection \<open>Delivery with and without the stream registry\<close>

lemma createChat_returns:
  assumes "p_saveChat env = Inr ()"
  shows "\<exists>added. createChat env requestBody user w = (Inr (), w\<lparr>trace := trace w @ added\<rparr>)"
proof -
  obtain title added where g:
    "generateTitleFromUserMessage (p_generateText env)
       (w\<lparr>trace := trace w @ [ConsoleLog ''Creating new chat with ID:'']\<rparr>) =
     (Inr title, w\<lparr>trace := trace w @ [ConsoleLog ''Creating new chat with ID:''] @ added\<rparr>)"
    using generateTitle_returns [of "p_generateText env"
        "w\<lparr>trace := trace w @ [ConsoleLog ''Creating new chat with ID:'']\<rparr>"]
    by auto
  show ?thesis
    using assms g by (simp add: createChat_def io_defs ex_trace_extension_plain)
qed

lemma startStream_delivery:
  assumes "p_previousMessages env = Inr previousMessages"
    and "p_saveMessages env = Inr ()"
    and "p_createStreamId env = Inr ()"
  shows "(globalStreamContext w = None \<and> p_createContext env = Inl message \<longrightarrow>
           fst (startStream env requestBody w) =
             Inr (Response 200 (StreamBody (ModelStream
               (streamTextCall requestBody (p_requestHints env) previousMessages))))) \<and>
         ((globalStreamContext w = Some ctx \<or> p_createContext env = Inr ctx) \<and>
          p_resumableStream env = Inr True \<longrightarrow>
           fst (startStream env requestBody w) =
             Inr (Response 200 (StreamBody (Resumable (p_uuid env) (ModelStream
               (streamTextCall requestBody (p_requestHints env) previousMessages)))))) \<and>
         CreateStreamId (p_uuid env) (b_id requestBody)
           \<in> set (trace (snd (startStream env requestBody w)))"
  using assms
  by (cases "globalStreamContext w"; cases "p_createContext env"; cases "p_resumableStream env")
     (auto simp: startStream_def getStreamContext_def io_defs Let_def)

lemma handlePost_reaches_startStream:
  assumes "p_auth env = Inr (Some user)"
    and "p_messageCount env = Inr messageCount"
    and "messageCount \<le> p_maxMessagesPerDay env (utype user)"
    and "(p_chat env = Inr (Some chat) \<and> c_userId chat = uid user)
         \<or> (p_chat env = Inr None \<and> p_saveChat env = Inr ())"
  shows "\<exists>added. handlePost env requestBody w =
           startStream env requestBody (w\<lparr>trace := trace w @ added\<rparr>)"
proof -
  obtain added where eu: "ensureUser env user (w\<lparr>trace := trace w @ [Auth]\<rparr>) =
      (Inr (), w\<lparr>trace := trace w @ [Auth] @ added\<rparr>)"
    using ensureUser_returns [of env user "w\<lparr>trace := trace w @ [Auth]\<rparr>"] by auto
  let ?w2 = "w\<lparr>trace := trace w @ [Auth] @ added
      @ [GetMessageCountByUserId (uid user) 24, GetChatById (b_id requestBody)]\<rparr>"
  from assms(4) show ?thesis
  proof
    assume "p_chat env = Inr (Some chat) \<and> c_userId chat = uid user"
    then have "handlePost env requestBody w = startStream env requestBody ?w2"
      using assms(1-3) eu by (simp add: handlePost_def io_defs Let_def)
    then show ?thesis by blast
  next
    assume new: "p_chat env = Inr None \<and> p_saveChat env = Inr ()"
    then obtain added' where cc: "createChat env requestBody user ?w2 =
        (Inr (), ?w2\<lparr>trace := trace ?w2 @ added'\<rparr>)"
      using createChat_returns [of env requestBody user ?w2] by auto
    have "handlePost env requestBody w =
        startStream env requestBody (?w2\<lparr>trace := trace ?w2 @ added'\<rparr>)"
      using new assms(1-3) eu cc by (simp add: handlePost_def io_defs Let_def)
    then have "handlePost env requestBody w =
        startStream env requestBody (w\<lparr>trace := trace w @ ([Auth] @ added
          @ [GetMessageCountByUserId (uid user) 24, GetChatById (b_id requestBody)] @ added')\<rparr>)"
      by simp
    then show ?thesis by blast
  qed
qed

text \<open>
  Claim C7. For a \<open>POST\<close> that passes validation, authentication, the quota and the
  ownership check, and whose writes succeed: when no stream context can be created, the
  response is the data stream of the model call itself, with status 200; when a context is
  available, the response is the same data stream wrapped by \<open>resumableStream\<close> under the
  new stream id, which was registered for the chat with \<open>createStreamId\<close>.
\<close>

theorem POST_delivers_stream_with_or_without_registry:
  assumes body: "p_body env = Inr requestBody"
    and session: "p_auth env = Inr (Some user)"
    and count: "p_messageCount env = Inr messageCount"
    and within: "messageCount \<le> p_maxMessagesPerDay env (utype user)"
    and chat: "(p_chat env = Inr (Some chat) \<and> c_userId chat = uid user)
         \<or> (p_chat env = Inr None \<and> p_saveChat env = Inr ())"
    and previous: "p_previousMessages env = Inr previousMessages"
    and saved: "p_saveMessages env = Inr ()"
    and registered: "p_createStreamId env = Inr ()"
  shows "(globalStreamContext w = None \<and> p_createContext env = Inl message \<longrightarrow>
           fst (POST env w) =
             Inr (Response 200 (StreamBody (ModelStream
               (streamTextCall requestBody (p_requestHints env) previousMessages))))) \<and>
         ((globalStreamContext w = Some ctx \<or> p_createContext env = Inr ctx) \<and>
          p_resumableStream env = Inr True \<longrightarrow>
           fst (POST env w) =
             Inr (Response 200 (StreamBody (Resumable (p_uuid env) (ModelStream
               (streamTextCall requestBody (p_requestHints env) previousMessages))))) \<and>
           CreateStreamId (p_uuid env) (b_id requestBody) \<in> set (trace (snd (POST env w))))"
proof -
  obtain added where reach: "handlePost env requestBody w =
      startStream env requestBody (w\<lparr>trace := trace w @ added\<rparr>)"
    using handlePost_reaches_startStream [OF session count within chat] by blast
  let ?w1 = "w\<lparr>trace := trace w @ added\<rparr>"
  note d = startStream_delivery [OF previous saved registered, of ?w1 message requestBody ctx]
  have post: "POST env w = startStream env requestBody ?w1"
    if "fst (startStream env requestBody ?w1) = Inr response" for response
    using that body reach
    by (cases "startStream env requestBody ?w1") (simp add: POST_def io_defs)
  show ?thesis
  proof (intro conjI impI)
    assume a: "globalStreamContext w = None \<and> p_createContext env = Inl message"
    with d have r: "fst (startStream env requestBody ?w1) =
        Inr (Response 200 (StreamBody (ModelStream
          (streamTextCall requestBody (p_requestHints env) previousMessages))))"
      by simp
    from post [OF r] r show "fst (POST env w) =
        Inr (Response 200 (StreamBody (ModelStream
          (streamTextCall requestBody (p_requestHints env) previousMessages))))"
      by simp
  next
    assume a: "(globalStreamContext w = Some ctx \<or> p_createContext env = Inr ctx) \<and>
      p_resumableStream env = Inr True"
    with d have r: "fst (startStream env requestBody ?w1) =
        Inr (Response 200 (StreamBody (Resumable (p_uuid env) (ModelStream
          (streamTextCall requestBody (p_requestHints env) previousMessages)))))"
      by simp
    from post [OF r] r show "fst (POST env w) =
        Inr (Response 200 (StreamBody (Resumable (p_uuid env) (ModelStream
          (streamTextCall requestBody (p_requestHints env) previousMessages)))))"
      by simp
    from post [OF r] d
    show "CreateStreamId (p_uuid env) (b_id requestBody) \<in> set (trace (snd (POST env w)))"
      by simp
  qed
qed

text \<open>
  Claim C7 for a first message of alice, without and with a stream context.
\<close>

theorem POST_delivers_stream_with_or_without_registry_witness:
  "fst (POST (examplePost (Inr (exampleBody ''chat-model'')) (Some alice) 3 None
          (Inl (ascii ''REDIS_URL environment variable is not set''))) w0) =
     Inr (Response 200 (StreamBody (ModelStream
       (streamTextCall (exampleBody ''chat-model'') noHints [])))) \<and>
   fst (POST (examplePost (Inr (exampleBody ''chat-model'')) (Some alice) 3 None
          (Inr StreamContext)) w0) =
     Inr (Response 200 (StreamBody (Resumable ''s1'' (ModelStream
       (streamTextCall (exampleBody ''chat-model'') noHints []))))) \<and>
   CreateStreamId ''s1'' ''c1'' \<in> set (trace (snd (POST (examplePost
          (Inr (exampleBody ''chat-model'')) (Some alice) 3 None (Inr StreamContext)) w0)))"
  using POST_delivers_stream_with_or_without_registry [where w = w0 and ctx = StreamContext
      and requestBody = "exampleBody ''chat-model''" and user = alice and messageCount = 3
      and previousMessages = "[]" and chat = "chatOfBob ''public''"
      and message = "ascii ''REDIS_URL environment variable is not set''"
      and env = "examplePost (Inr (exampleBody ''chat-model'')) (Some alice) 3 None
          (Inl (ascii ''REDIS_URL environment variable is not set''))"]
    POST_delivers_stream_with_or_without_registry [where w = w0 and ctx = StreamContext
      and requestBody = "exampleBody ''chat-model''" and user = alice and messageCount = 3
      and previousMessages = "[]" and chat = "chatOfBob ''public''"
      and message = "ascii ''REDIS_URL environment variable is not set''"
      and env = "examplePost (Inr (exampleBody ''chat-model'')) (Some alice) 3 None
          (Inr StreamContext)"]
  by (simp add: examplePost_def exampleBody_def w0_def)

end
